theory Spec2Isabelle
  imports
    Complex_Main
    "HOL-Library.Multiset"
    "HOL-Library.Finite_Map"
    "HOL-Library.Char_ord"
    "HOL-Library.List_Lexorder"
begin

section \<open>Ferry operator integration service\<close>

text \<open>
  A shallow embedding of \<^verbatim>\<open>app/services/ferry_integration.py\<close>: the two operator
  adapters (Lyko aggregator, CTN direct), their response mappers, and the service that
  registers adapters, fans a search out to all of them, merges and sorts the results,
  creates bookings and checks health.

  What lies outside the Python process is an explicit environment: a \<open>network\<close> maps each
  HTTP request the code issues to either an exception or a response. Exceptions are
  values (\<open>Inl\<close> of a sum), so every \<^verbatim>\<open>try/except\<close> of the source is a case split.
  The tasks of one search share no state, and \<^verbatim>\<open>asyncio.gather\<close> returns their results in
  task order, so the concurrent fan-out is modelled by a map over the adapters.

  Left out: the lines the adapters and the search write to the log (the log of
  \<^verbatim>\<open>initialize\<close> is modelled), the creation and closing of the shared HTTP session, and
  elapsed time.
\<close>

subsection \<open>Python values\<close>

text \<open>
  An exception is its class name and the text \<^verbatim>\<open>str(e)\<close> gives. All exceptions of the
  model are subclasses of \<^verbatim>\<open>Exception\<close> (what \<^verbatim>\<open>except Exception\<close> catches).
\<close>

datatype exn = Exn (exn_class: string) (exn_str: string)

text \<open>
  What \<^verbatim>\<open>response.json()\<close> returns. JSON numbers are integers here: a number with a
  fraction or an exponent becomes a binary float in Python, which this model leaves out
  (an operator can send such a price as a string). An object is the list of its items
  in insertion order, as a Python \<^verbatim>\<open>dict\<close> keeps them.
\<close>

datatype json =
    JNull
  | JBool bool
  | JInt int
  | JStr string
  | JList "json list"
  | JObj "(string \<times> json) list"

definition squote :: string where
  "squote = [CHR 0x27]"

fun type_name :: "json \<Rightarrow> string" where
  "type_name JNull = ''NoneType''"
| "type_name (JBool _) = ''bool''"
| "type_name (JInt _) = ''int''"
| "type_name (JStr _) = ''str''"
| "type_name (JList _) = ''list''"
| "type_name (JObj _) = ''dict''"

definition NotImplementedError :: exn where
  "NotImplementedError = Exn ''NotImplementedError'' ''''"

definition AttributeError_get :: "json \<Rightarrow> exn" where
  "AttributeError_get v = Exn ''AttributeError''
     (squote @ type_name v @ squote @ '' object has no attribute '' @ squote @ ''get'' @ squote)"

definition TypeError_not_iterable :: "json \<Rightarrow> exn" where
  "TypeError_not_iterable v = Exn ''TypeError''
     (squote @ type_name v @ squote @ '' object is not iterable'')"

definition TypeError_not_ordered :: "string \<Rightarrow> string \<Rightarrow> exn" where
  "TypeError_not_ordered a b = Exn ''TypeError''
     (squote @ ''<'' @ squote @ '' not supported between instances of ''
        @ squote @ a @ squote @ '' and '' @ squote @ b @ squote)"

definition ConversionSyntax :: exn where
  "ConversionSyntax = Exn ''InvalidOperation''
     (''[<class '' @ squote @ ''decimal.ConversionSyntax'' @ squote @ ''>]'')"

definition InvalidOperation :: exn where
  "InvalidOperation = Exn ''InvalidOperation''
     (''[<class '' @ squote @ ''decimal.InvalidOperation'' @ squote @ ''>]'')"

text \<open>\<^verbatim>\<open>v.get(key, default)\<close>: only a dict has the method.\<close>

definition py_get :: "json \<Rightarrow> string \<Rightarrow> json \<Rightarrow> exn + json" where
  "py_get v key dflt =
     (case v of
        JObj items \<Rightarrow> (case map_of items key of Some x \<Rightarrow> Inr x | None \<Rightarrow> Inr dflt)
      | _ \<Rightarrow> Inl (AttributeError_get v))"

text \<open>
  \<^verbatim>\<open>for item in v\<close>: a list yields its elements, a dict its keys, a string its
  characters (one item per byte here, where Python yields one per code point; each is
  a string either way); anything else is not iterable.
\<close>

definition py_iter :: "json \<Rightarrow> exn + json list" where
  "py_iter v =
     (case v of
        JList xs \<Rightarrow> Inr xs
      | JObj items \<Rightarrow> Inr (map (\<lambda>kv. JStr (fst kv)) items)
      | JStr s \<Rightarrow> Inr (map (\<lambda>c. JStr [c]) s)
      | _ \<Rightarrow> Inl (TypeError_not_iterable v))"

subsection \<open>Decimal\<close>

text \<open>
  \<^verbatim>\<open>decimal.Decimal\<close>: a finite number is sign, coefficient and exponent
  (value \<open>(-1)\<^sup>s \<sqdot> c \<sqdot> 10\<^sup>e\<close>); the constructor also accepts infinities and NaNs
  (sign, signalling flag, payload).
\<close>

datatype decimal =
    Finite bool nat int
  | Infinity bool
  | NaN bool bool nat

definition is_digit :: "char \<Rightarrow> bool" where
  "is_digit c = (c \<in> set ''0123456789'')"

definition is_space :: "char \<Rightarrow> bool" where
  "is_space c = (c \<in> set [CHR '' '', CHR 0x09, CHR 0x0A, CHR 0x0B, CHR 0x0C, CHR 0x0D,
                           CHR 0x1C, CHR 0x1D, CHR 0x1E, CHR 0x1F])"

definition strip :: "string \<Rightarrow> string" where
  "strip s = rev (dropWhile is_space (rev (dropWhile is_space s)))"

definition lower :: "char \<Rightarrow> char" where
  "lower c = (if (65::nat) \<le> of_char c \<and> of_char c \<le> (90::nat)
              then char_of (of_char c + (32::nat)) else c)"

definition digits_val :: "string \<Rightarrow> nat" where
  "digits_val ds = foldl (\<lambda>n c. 10 * n + (of_char c - 48)) 0 ds"

text \<open>
  The numeric alternative of the constructor's grammar, after the sign: digits with an
  optional fraction (at least one digit in all) and an optional exponent.
\<close>

definition parse_number :: "bool \<Rightarrow> string \<Rightarrow> exn + decimal" where
  "parse_number neg l =
     (let ip = takeWhile is_digit l;
          r1 = dropWhile is_digit l;
          has_dot = (r1 \<noteq> [] \<and> hd r1 = CHR ''.'');
          fp = (if has_dot then takeWhile is_digit (tl r1) else []);
          r2 = (if has_dot then dropWhile is_digit (tl r1) else r1);
          coeff = digits_val (ip @ fp)
      in if ip = [] \<and> fp = [] then Inl ConversionSyntax
         else if r2 = [] then Inr (Finite neg coeff (- int (length fp)))
         else if hd r2 = CHR ''e'' then
           (let r3 = tl r2;
                eneg = (r3 \<noteq> [] \<and> hd r3 = CHR ''-'');
                ed = (if r3 \<noteq> [] \<and> hd r3 \<in> set ''+-'' then tl r3 else r3);
                e = (if eneg then - int (digits_val ed) else int (digits_val ed))
            in if ed \<noteq> [] \<and> list_all is_digit ed
               then Inr (Finite neg coeff (e - int (length fp)))
               else Inl ConversionSyntax)
         else Inl ConversionSyntax)"

text \<open>
  \<^verbatim>\<open>Decimal(s)\<close> for a string (ASCII): surrounding whitespace is stripped, underscores
  are dropped, letters match in either case. The conversion is exact (no rounding); the
  bound the library puts on the size of an exponent is not modelled.
\<close>

definition Decimal :: "string \<Rightarrow> exn + decimal" where
  "Decimal s =
     (let t = filter (\<lambda>c. c \<noteq> CHR ''_'') (strip s);
          neg = (t \<noteq> [] \<and> hd t = CHR ''-'');
          u = (if t \<noteq> [] \<and> hd t \<in> set ''+-'' then tl t else t);
          l = map lower u
      in if l = ''inf'' \<or> l = ''infinity'' then Inr (Infinity neg)
         else if take 3 l = ''nan'' \<and> list_all is_digit (drop 3 l)
           then Inr (NaN neg False (digits_val (drop 3 l)))
         else if take 4 l = ''snan'' \<and> list_all is_digit (drop 4 l)
           then Inr (NaN neg True (digits_val (drop 4 l)))
         else parse_number neg l)"

text \<open>
  \<^verbatim>\<open>Decimal(str(v))\<close>. \<^verbatim>\<open>str\<close> of an int is its decimal digits with a leading minus
  sign when negative, which the constructor reads back as that integer with exponent 0;
  of a string, the string itself. \<^verbatim>\<open>str\<close> of \<^verbatim>\<open>None\<close>, of a bool, of a list and of a
  dict is \<^verbatim>\<open>None\<close>, \<^verbatim>\<open>True\<close>/\<^verbatim>\<open>False\<close>, \<^verbatim>\<open>[...]\<close> and \<^verbatim>\<open>{...}\<close>: none is a numeric string.
\<close>

fun Decimal_of_str :: "json \<Rightarrow> exn + decimal" where
  "Decimal_of_str (JInt n) = Inr (Finite (n < 0) (nat \<bar>n\<bar>) 0)"
| "Decimal_of_str (JStr s) = Decimal s"
| "Decimal_of_str JNull = Inl ConversionSyntax"
| "Decimal_of_str (JBool _) = Inl ConversionSyntax"
| "Decimal_of_str (JList _) = Inl ConversionSyntax"
| "Decimal_of_str (JObj _) = Inl ConversionSyntax"

subsection \<open>Data model\<close>

text \<open>
  The dataclasses \<^verbatim>\<open>SearchRequest\<close> and \<^verbatim>\<open>SearchResponse\<close>. A date is kept as the text
  its \<^verbatim>\<open>isoformat()\<close> gives. Python does not check the annotations of a dataclass: a
  field of \<^verbatim>\<open>SearchResponse\<close> holds whatever value the mapper read from the response,
  so every field but the price is a \<open>json\<close> value.
\<close>

record SearchRequest =
  departure_port :: string
  arrival_port :: string
  departure_date :: string
  return_date :: "string option"
  passengers :: int
  vehicles :: int
  passenger_types :: "(string \<times> int) list"
  vehicle_types :: "(string \<times> int) list"

record SearchResponse =
  operator_code :: json
  route_id :: json
  departure_time :: json
  arrival_time :: json
  duration_minutes :: json
  available_seats :: json
  available_vehicles :: json
  base_price :: decimal
  currency :: json
  booking_reference :: json
  amenities :: json
  vessel_name :: json

text \<open>The columns of \<^verbatim>\<open>FerryOperator\<close> (app/models/ferry.py) that the service reads,
  and \<^verbatim>\<open>api_timeout_seconds\<close>, which it does not.\<close>

record FerryOperator =
  code :: string
  api_endpoint :: "string option"
  api_key_encrypted :: "string option"
  api_timeout_seconds :: int
  is_active :: bool
  integration_status :: string

subsection \<open>The HTTP session as an environment\<close>

record http_request =
  http_method :: string
  url :: string
  headers :: "(string \<times> string option) list"
  json_body :: "json option"
  timeout_total :: int

text \<open>A response: its status, and what \<^verbatim>\<open>await response.json()\<close> and
  \<^verbatim>\<open>await response.text()\<close> give (either may raise).\<close>

record http_response =
  status :: int
  json_result :: "exn + json"
  text_result :: "exn + string"

type_synonym network = "http_request \<Rightarrow> exn + http_response"

definition ebind :: "exn + 'a \<Rightarrow> ('a \<Rightarrow> exn + 'b) \<Rightarrow> exn + 'b" where
  "ebind m f = (case m of Inl e \<Rightarrow> Inl e | Inr x \<Rightarrow> f x)"

text \<open>Formatting an optional string in an f-string: \<^verbatim>\<open>None\<close> prints as \<^verbatim>\<open>None\<close>.\<close>

definition format_opt :: "string option \<Rightarrow> string" where
  "format_opt v = (case v of None \<Rightarrow> ''None'' | Some s \<Rightarrow> s)"

text \<open>Truth value of an optional string: \<^verbatim>\<open>None\<close> and the empty string are false.\<close>

definition truthy :: "string option \<Rightarrow> bool" where
  "truthy v = (case v of None \<Rightarrow> False | Some s \<Rightarrow> s \<noteq> [])"

subsection \<open>Adapters\<close>

text \<open>
  The three adapter classes. A Lyko or CTN adapter carries the operator and the
  \<^verbatim>\<open>base_url\<close> and \<^verbatim>\<open>api_key\<close> its constructor computed.
\<close>

datatype adapter =
    BaseFerryOperatorAdapter FerryOperator
  | LykoAggregatorAdapter FerryOperator string "string option"
  | CTNDirectAdapter FerryOperator string "string option"


definition new_LykoAggregatorAdapter :: "FerryOperator \<Rightarrow> adapter" where
  "new_LykoAggregatorAdapter op =
     LykoAggregatorAdapter op ''https://api.lyko.tech/v1'' (api_key_encrypted op)"

definition new_CTNDirectAdapter :: "FerryOperator \<Rightarrow> adapter" where
  "new_CTNDirectAdapter op =
     CTNDirectAdapter op
       (case api_endpoint op of
          Some e \<Rightarrow> (if e \<noteq> [] then e else ''https://api.ctn.com.tn/v1'')
        | None \<Rightarrow> ''https://api.ctn.com.tn/v1'')
       (api_key_encrypted op)"

subsubsection \<open>Lyko aggregator\<close>

definition int_dict :: "(string \<times> int) list \<Rightarrow> json" where
  "int_dict d = JObj (map (\<lambda>kv. (fst kv, JInt (snd kv))) d)"

definition lyko_search_request ::
  "FerryOperator \<Rightarrow> string \<Rightarrow> string option \<Rightarrow> SearchRequest \<Rightarrow> http_request" where
  "lyko_search_request op base api_key request =
     \<lparr> http_method = ''POST'',
       url = base @ ''/search'',
       headers = [(''Authorization'', Some (''Bearer '' @ format_opt api_key)),
                  (''Content-Type'', Some ''application/json'')],
       json_body = Some (JObj
         [(''departure_port'', JStr (departure_port request)),
          (''arrival_port'', JStr (arrival_port request)),
          (''departure_date'', JStr (departure_date request)),
          (''return_date'', (case return_date request of Some d \<Rightarrow> JStr d | None \<Rightarrow> JNull)),
          (''passengers'', JInt (passengers request)),
          (''vehicles'', JInt (vehicles request)),
          (''passenger_types'', int_dict (passenger_types request)),
          (''vehicle_types'', int_dict (vehicle_types request)),
          (''operators'', JList [JStr (code op)])]),
       timeout_total = 30 \<rparr>"

text \<open>The body of the \<^verbatim>\<open>try\<close> in the loop of \<^verbatim>\<open>_parse_search_response\<close>: the keyword
  arguments are evaluated in order, and the first that raises ends the entry.\<close>

definition lyko_result :: "FerryOperator \<Rightarrow> json \<Rightarrow> exn + SearchResponse" where
  "lyko_result op item =
     ebind (py_get item ''operator_code'' (JStr (code op))) (\<lambda>oc.
     ebind (py_get item ''route_id'' JNull) (\<lambda>rid.
     ebind (py_get item ''departure_time'' JNull) (\<lambda>dep.
     ebind (py_get item ''arrival_time'' JNull) (\<lambda>arr.
     ebind (py_get item ''duration_minutes'' (JInt 0)) (\<lambda>dur.
     ebind (py_get item ''available_seats'' (JInt 0)) (\<lambda>seats.
     ebind (py_get item ''available_vehicles'' (JInt 0)) (\<lambda>veh.
     ebind (ebind (py_get item ''price'' (JInt 0)) Decimal_of_str) (\<lambda>price.
     ebind (py_get item ''currency'' (JStr ''EUR'')) (\<lambda>cur.
     ebind (py_get item ''booking_reference'' JNull) (\<lambda>ref.
     ebind (py_get item ''amenities'' (JList [])) (\<lambda>am.
     ebind (py_get item ''vessel_name'' (JStr [])) (\<lambda>vessel.
       Inr \<lparr> operator_code = oc, route_id = rid, departure_time = dep,
             arrival_time = arr, duration_minutes = dur, available_seats = seats,
             available_vehicles = veh, base_price = price, currency = cur,
             booking_reference = ref, amenities = am, vessel_name = vessel \<rparr>))))))))))))"

text \<open>The loop: a result is appended, an entry that raised is skipped
  (\<^verbatim>\<open>except Exception: ... continue\<close>).\<close>

fun lyko_loop :: "FerryOperator \<Rightarrow> json list \<Rightarrow> SearchResponse list \<Rightarrow> SearchResponse list" where
  "lyko_loop op [] results = results"
| "lyko_loop op (item # items) results =
     (case lyko_result op item of
        Inr result \<Rightarrow> lyko_loop op items (results @ [result])
      | Inl e \<Rightarrow> lyko_loop op items results)"

definition parse_search_response :: "FerryOperator \<Rightarrow> json \<Rightarrow> exn + SearchResponse list" where
  "parse_search_response op data =
     ebind (py_get data ''results'' (JList [])) (\<lambda>v.
     ebind (py_iter v) (\<lambda>items. Inr (lyko_loop op items [])))"

definition lyko_search_routes ::
  "network \<Rightarrow> FerryOperator \<Rightarrow> string \<Rightarrow> string option \<Rightarrow> SearchRequest \<Rightarrow> SearchResponse list" where
  "lyko_search_routes net op base api_key request =
     (case ebind (net (lyko_search_request op base api_key request)) (\<lambda>response.
             if status response = 200
             then ebind (json_result response) (parse_search_response op)
             else ebind (text_result response) (\<lambda>_. Inr []))
      of Inr results \<Rightarrow> results
       | Inl e \<Rightarrow> [])"

definition lyko_booking_request :: "string \<Rightarrow> string option \<Rightarrow> json \<Rightarrow> http_request" where
  "lyko_booking_request base api_key booking_data =
     \<lparr> http_method = ''POST'',
       url = base @ ''/bookings'',
       headers = [(''Authorization'', Some (''Bearer '' @ format_opt api_key)),
                  (''Content-Type'', Some ''application/json'')],
       json_body = Some booking_data,
       timeout_total = 60 \<rparr>"

definition lyko_create_booking :: "network \<Rightarrow> string \<Rightarrow> string option \<Rightarrow> json \<Rightarrow> json" where
  "lyko_create_booking net base api_key booking_data =
     (case ebind (net (lyko_booking_request base api_key booking_data)) (\<lambda>response.
             if status response = 200 \<or> status response = 201
             then json_result response
             else ebind (text_result response) (\<lambda>error_text.
                    Inr (JObj [(''error'', JStr (''Booking failed: '' @ error_text))])))
      of Inr v \<Rightarrow> v
       | Inl e \<Rightarrow> JObj [(''error'', JStr (exn_str e))])"

definition lyko_health_request :: "string \<Rightarrow> string option \<Rightarrow> http_request" where
  "lyko_health_request base api_key =
     \<lparr> http_method = ''GET'',
       url = base @ ''/health'',
       headers = [(''Authorization'', Some (''Bearer '' @ format_opt api_key))],
       json_body = None,
       timeout_total = 10 \<rparr>"

definition lyko_health_check :: "network \<Rightarrow> string \<Rightarrow> string option \<Rightarrow> bool" where
  "lyko_health_check net base api_key =
     (case net (lyko_health_request base api_key) of
        Inr response \<Rightarrow> status response = 200
      | Inl e \<Rightarrow> False)"

subsubsection \<open>CTN direct\<close>

definition ctn_search_request :: "string \<Rightarrow> string option \<Rightarrow> SearchRequest \<Rightarrow> http_request" where
  "ctn_search_request base api_key request =
     \<lparr> http_method = ''POST'',
       url = base @ ''/search'',
       headers = [(''X-API-Key'', api_key),
                  (''Content-Type'', Some ''application/json'')],
       json_body = Some (JObj
         [(''from'', JStr (departure_port request)),
          (''to'', JStr (arrival_port request)),
          (''date'', JStr (departure_date request)),
          (''passengers'', JInt (passengers request)),
          (''vehicles'', JInt (vehicles request))]),
       timeout_total = 30 \<rparr>"

definition ctn_result :: "json \<Rightarrow> exn + SearchResponse" where
  "ctn_result sailing =
     ebind (py_get sailing ''route_id'' JNull) (\<lambda>rid.
     ebind (py_get sailing ''departure'' JNull) (\<lambda>dep.
     ebind (py_get sailing ''arrival'' JNull) (\<lambda>arr.
     ebind (py_get sailing ''duration'' JNull) (\<lambda>dur.
     ebind (py_get sailing ''seats_available'' JNull) (\<lambda>seats.
     ebind (py_get sailing ''vehicles_available'' JNull) (\<lambda>veh.
     ebind (ebind (py_get sailing ''fare'' (JInt 0)) Decimal_of_str) (\<lambda>price.
     ebind (py_get sailing ''currency'' (JStr ''TND'')) (\<lambda>cur.
     ebind (py_get sailing ''services'' (JList [])) (\<lambda>am.
     ebind (py_get sailing ''vessel'' JNull) (\<lambda>vessel.
       Inr \<lparr> operator_code = JStr ''CTN'', route_id = rid, departure_time = dep,
             arrival_time = arr, duration_minutes = dur, available_seats = seats,
             available_vehicles = veh, base_price = price, currency = cur,
             booking_reference = JNull, amenities = am, vessel_name = vessel \<rparr>))))))))))"

fun ctn_loop :: "json list \<Rightarrow> SearchResponse list \<Rightarrow> SearchResponse list" where
  "ctn_loop [] results = results"
| "ctn_loop (sailing # sailings) results =
     (case ctn_result sailing of
        Inr result \<Rightarrow> ctn_loop sailings (results @ [result])
      | Inl e \<Rightarrow> ctn_loop sailings results)"

definition parse_ctn_response :: "json \<Rightarrow> exn + SearchResponse list" where
  "parse_ctn_response data =
     ebind (py_get data ''sailings'' (JList [])) (\<lambda>v.
     ebind (py_iter v) (\<lambda>sailings. Inr (ctn_loop sailings [])))"

definition ctn_search_routes ::
  "network \<Rightarrow> string \<Rightarrow> string option \<Rightarrow> SearchRequest \<Rightarrow> SearchResponse list" where
  "ctn_search_routes net base api_key request =
     (case ebind (net (ctn_search_request base api_key request)) (\<lambda>response.
             if status response = 200
             then ebind (json_result response) parse_ctn_response
             else Inr [])
      of Inr results \<Rightarrow> results
       | Inl e \<Rightarrow> [])"

definition ctn_health_request :: "string \<Rightarrow> string option \<Rightarrow> http_request" where
  "ctn_health_request base api_key =
     \<lparr> http_method = ''GET'',
       url = base @ ''/status'',
       headers = [(''X-API-Key'', api_key)],
       json_body = None,
       timeout_total = 10 \<rparr>"

definition ctn_health_check :: "network \<Rightarrow> string \<Rightarrow> string option \<Rightarrow> bool" where
  "ctn_health_check net base api_key =
     (case net (ctn_health_request base api_key) of
        Inr response \<Rightarrow> status response = 200
      | Inl e \<Rightarrow> False)"

subsubsection \<open>Dispatch on the adapter class\<close>

text \<open>The base class raises \<^verbatim>\<open>NotImplementedError\<close>; CTN overrides the search and the
  health check only, so its \<^verbatim>\<open>create_booking\<close> is the base one.\<close>

fun search_routes :: "network \<Rightarrow> adapter \<Rightarrow> SearchRequest \<Rightarrow> exn + SearchResponse list" where
  "search_routes net (BaseFerryOperatorAdapter op) request = Inl NotImplementedError"
| "search_routes net (LykoAggregatorAdapter op base api_key) request =
     Inr (lyko_search_routes net op base api_key request)"
| "search_routes net (CTNDirectAdapter op base api_key) request =
     Inr (ctn_search_routes net base api_key request)"

fun adapter_create_booking :: "network \<Rightarrow> adapter \<Rightarrow> json \<Rightarrow> exn + json" where
  "adapter_create_booking net (BaseFerryOperatorAdapter op) booking_data = Inl NotImplementedError"
| "adapter_create_booking net (LykoAggregatorAdapter op base api_key) booking_data =
     Inr (lyko_create_booking net base api_key booking_data)"
| "adapter_create_booking net (CTNDirectAdapter op base api_key) booking_data =
     Inl NotImplementedError"

fun health_check :: "network \<Rightarrow> adapter \<Rightarrow> exn + bool" where
  "health_check net (BaseFerryOperatorAdapter op) = Inl NotImplementedError"
| "health_check net (LykoAggregatorAdapter op base api_key) =
     Inr (lyko_health_check net base api_key)"
| "health_check net (CTNDirectAdapter op base api_key) =
     Inr (ctn_health_check net base api_key)"

subsection \<open>Comparing Python values\<close>

text \<open>
  Python's \<^verbatim>\<open>==\<close> on the values a JSON response holds: \<^verbatim>\<open>True\<close> and \<^verbatim>\<open>False\<close> equal
  the integers 1 and 0, lists are equal elementwise, dicts are equal as mappings
  (whatever the order of their items), and values of different kinds are unequal.
  \<open>py_norm\<close> maps a value to a normal form in which exactly the \<^verbatim>\<open>==\<close>-equal values
  coincide.
\<close>

datatype pyval =
    VNone
  | VNum int
  | VStr string
  | VList "pyval list"
  | VDict "(string, pyval) fmap"

primrec py_norm :: "json \<Rightarrow> pyval" where
  "py_norm JNull = VNone"
| "py_norm (JBool b) = VNum (if b then 1 else 0)"
| "py_norm (JInt n) = VNum n"
| "py_norm (JStr s) = VStr s"
| "py_norm (JList xs) = VList (map py_norm xs)"
| "py_norm (JObj items) = VDict (fmap_of_list (map (map_prod id py_norm) items))"

definition py_eq :: "json \<Rightarrow> json \<Rightarrow> bool" where
  "py_eq a b = (py_norm a = py_norm b)"

fun py_num :: "json \<Rightarrow> int option" where
  "py_num (JBool b) = Some (if b then 1 else 0)"
| "py_num (JInt n) = Some n"
| "py_num _ = None"

text \<open>
  Python's \<^verbatim>\<open><\<close>: strings by code point, numbers (bools included) by value, lists
  lexicographically (the first pair of unequal elements decides, else the shorter list
  is smaller); every other pair raises \<^verbatim>\<open>TypeError\<close>.
\<close>

fun py_lt :: "json \<Rightarrow> json \<Rightarrow> exn + bool"
  and py_lt_list :: "json list \<Rightarrow> json list \<Rightarrow> exn + bool" where
  "py_lt (JStr a) (JStr b) = Inr (a < b)"
| "py_lt (JList xs) (JList ys) = py_lt_list xs ys"
| "py_lt a b =
     (case (py_num a, py_num b) of
        (Some m, Some n) \<Rightarrow> Inr (m < n)
      | _ \<Rightarrow> Inl (TypeError_not_ordered (type_name a) (type_name b)))"
| "py_lt_list [] ys = Inr (ys \<noteq> [])"
| "py_lt_list (x # xs) [] = Inr False"
| "py_lt_list (x # xs) (y # ys) = (if py_eq x y then py_lt_list xs ys else py_lt x y)"

text \<open>
  Decimals compare by numeric value, with \<open>-Infinity\<close> below and \<open>Infinity\<close> above every
  finite number; \<open>dec_rank\<close> places a decimal that is not a NaN on that scale.
\<close>

definition dec_value :: "bool \<Rightarrow> nat \<Rightarrow> int \<Rightarrow> rat" where
  "dec_value s c e =
     (if s then - 1 else 1) * of_nat c * (if 0 \<le> e then 10 ^ nat e else 1 / 10 ^ nat (- e))"

fun dec_rank :: "decimal \<Rightarrow> int \<times> rat" where
  "dec_rank (Finite s c e) = (0, dec_value s c e)"
| "dec_rank (Infinity s) = (if s then - 1 else 1, 0)"
| "dec_rank (NaN s q p) = (0, 0)"

fun is_nan :: "decimal \<Rightarrow> bool" where
  "is_nan (NaN s q p) = True"
| "is_nan _ = False"

definition rank_lt :: "int \<times> rat \<Rightarrow> int \<times> rat \<Rightarrow> bool" where
  "rank_lt a b = (fst a < fst b \<or> (fst a = fst b \<and> snd a < snd b))"

text \<open>
  \<^verbatim>\<open>k1 < k2\<close> for the sort keys \<^verbatim>\<open>(x.base_price, x.departure_time)\<close> of two different
  results. A tuple comparison looks for the first component where the tuples differ by
  \<^verbatim>\<open>==\<close> and compares that component with \<^verbatim>\<open><\<close>; equal tuples are not smaller. With
  a NaN price either the \<^verbatim>\<open>==\<close> (signalling NaN) or the \<^verbatim>\<open><\<close> (quiet NaN) raises
  \<^verbatim>\<open>decimal.InvalidOperation\<close>.
\<close>

definition tuple_lt :: "decimal \<times> json \<Rightarrow> decimal \<times> json \<Rightarrow> exn + bool" where
  "tuple_lt k1 k2 =
     (if is_nan (fst k1) \<or> is_nan (fst k2) then Inl InvalidOperation
      else if dec_rank (fst k1) \<noteq> dec_rank (fst k2)
        then Inr (rank_lt (dec_rank (fst k1)) (dec_rank (fst k2)))
      else if py_eq (snd k1) (snd k2) then Inr False
      else py_lt (snd k1) (snd k2))"

subsection \<open>list.sort with a key\<close>

text \<open>
  \<^verbatim>\<open>xs.sort(key=f)\<close> is a stable comparison sort that uses only \<^verbatim>\<open><\<close> on the keys. A
  sort that never compares two elements cannot tell their order, so the call raises
  exactly when the \<^verbatim>\<open><\<close> of two keys at different positions raises; otherwise it
  returns the stable sorted list. When several comparisons would raise, Python reports
  the one its algorithm meets first; the model reports the first in list order (the
  later element on the left, as the sort compares a new element with an earlier one).
\<close>

fun compare_error :: "decimal \<times> json \<Rightarrow> (decimal \<times> json) list \<Rightarrow> exn option" where
  "compare_error k [] = None"
| "compare_error k (k' # ks) =
     (case tuple_lt k' k of Inl e \<Rightarrow> Some e | Inr _ \<Rightarrow> compare_error k ks)"

fun sort_error :: "(decimal \<times> json) list \<Rightarrow> exn option" where
  "sort_error [] = None"
| "sort_error (k # ks) =
     (case compare_error k ks of Some e \<Rightarrow> Some e | None \<Rightarrow> sort_error ks)"

definition key_less :: "decimal \<times> json \<Rightarrow> decimal \<times> json \<Rightarrow> bool" where
  "key_less a b = (tuple_lt a b = Inr True)"

fun insort_by :: "('a \<Rightarrow> decimal \<times> json) \<Rightarrow> 'a \<Rightarrow> 'a list \<Rightarrow> 'a list" where
  "insort_by f x [] = [x]"
| "insort_by f x (y # ys) =
     (if key_less (f y) (f x) then y # insort_by f x ys else x # y # ys)"

definition list_sort :: "('a \<Rightarrow> decimal \<times> json) \<Rightarrow> 'a list \<Rightarrow> exn + 'a list" where
  "list_sort f xs =
     (case sort_error (map f xs) of
        Some e \<Rightarrow> Inl e
      | None \<Rightarrow> Inr (foldr (insort_by f) xs []))"

subsection \<open>The integration service\<close>

text \<open>\<^verbatim>\<open>self.adapters\<close>, a dict from operator code to adapter, in insertion order.
  Assigning to a key that is present keeps its position.\<close>

record service =
  adapters :: "(string \<times> adapter) list"

fun dict_set :: "('k \<times> 'v) list \<Rightarrow> 'k \<Rightarrow> 'v \<Rightarrow> ('k \<times> 'v) list" where
  "dict_set [] k v = [(k, v)]"
| "dict_set (kv # kvs) k v = (if fst kv = k then (k, v) # kvs else kv # dict_set kvs k v)"

definition create_adapter :: "FerryOperator \<Rightarrow> exn + adapter" where
  "create_adapter op =
     (if integration_status op = ''lyko'' then Inr (new_LykoAggregatorAdapter op)
      else if code op = ''CTN'' \<and> truthy (api_endpoint op) then Inr (new_CTNDirectAdapter op)
      else Inr (new_LykoAggregatorAdapter op))"

datatype log_record = Info string | Error string

text \<open>
  The loop of \<^verbatim>\<open>initialize\<close>, with the adapter factory as a parameter (the method
  \<^verbatim>\<open>self._create_adapter\<close>), so that the \<^verbatim>\<open>except\<close> branch can be exercised with a
  factory that raises. The state is the adapter dict and the lines logged so far.
\<close>

fun initialize_loop ::
  "(FerryOperator \<Rightarrow> exn + adapter) \<Rightarrow> FerryOperator list \<Rightarrow>
   (string \<times> adapter) list \<Rightarrow> log_record list \<Rightarrow> (string \<times> adapter) list \<times> log_record list" where
  "initialize_loop create [] ads logged = (ads, logged)"
| "initialize_loop create (op # ops) ads logged =
     (if \<not> is_active op then initialize_loop create ops ads logged
      else case create op of
             Inr adapter \<Rightarrow>
               initialize_loop create ops (dict_set ads (code op) adapter)
                 (logged @ [Info (''Initialized adapter for '' @ code op)])
           | Inl e \<Rightarrow>
               initialize_loop create ops ads
                 (logged @ [Error (''Failed to initialize '' @ code op @ '': '' @ exn_str e)]))"

definition initialize_with ::
  "(FerryOperator \<Rightarrow> exn + adapter) \<Rightarrow> service \<Rightarrow> FerryOperator list \<Rightarrow> service \<times> log_record list" where
  "initialize_with create svc operators =
     (case initialize_loop create operators (adapters svc) [] of
        (ads, logged) \<Rightarrow> (svc\<lparr>adapters := ads\<rparr>, logged))"

definition initialize :: "service \<Rightarrow> FerryOperator list \<Rightarrow> service \<times> log_record list" where
  "initialize svc operators = initialize_with create_adapter svc operators"

definition safe_search :: "network \<Rightarrow> adapter \<Rightarrow> SearchRequest \<Rightarrow> SearchResponse list" where
  "safe_search net adapter request =
     (case search_routes net adapter request of
        Inr results \<Rightarrow> results
      | Inl e \<Rightarrow> [])"

definition sort_key :: "SearchResponse \<Rightarrow> decimal \<times> json" where
  "sort_key x = (base_price x, departure_time x)"

text \<open>One task per adapter, named \<^verbatim>\<open>search_<code>\<close>, in the order of the dict.\<close>

definition search_tasks ::
  "network \<Rightarrow> service \<Rightarrow> SearchRequest \<Rightarrow> (string \<times> SearchResponse list) list" where
  "search_tasks net svc request =
     map (\<lambda>entry. (''search_'' @ fst entry, safe_search net (snd entry) request)) (adapters svc)"

definition search_all_operators ::
  "network \<Rightarrow> service \<Rightarrow> SearchRequest \<Rightarrow> exn + SearchResponse list" where
  "search_all_operators net svc request =
     (let tasks = search_tasks net svc request
      in if tasks = [] then Inr []
         else list_sort sort_key (concat (map snd tasks)))"

definition create_booking :: "network \<Rightarrow> service \<Rightarrow> string \<Rightarrow> json \<Rightarrow> (exn + json) \<times> service" where
  "create_booking net svc op_code booking_data =
     (case map_of (adapters svc) op_code of
        None \<Rightarrow> (Inr (JObj [(''error'', JStr (''Operator '' @ op_code @ '' not available''))]), svc)
      | Some adapter \<Rightarrow>
          (case adapter_create_booking net adapter booking_data of
             Inr v \<Rightarrow> (Inr v, svc)
           | Inl e \<Rightarrow> (Inr (JObj [(''error'', JStr (exn_str e))]), svc)))"

fun health_loop ::
  "network \<Rightarrow> (string \<times> adapter) list \<Rightarrow> (string \<times> bool) list \<Rightarrow> (string \<times> bool) list" where
  "health_loop net [] results = results"
| "health_loop net (task # tasks) results =
     health_loop net tasks
       (dict_set results (fst task)
          (case health_check net (snd task) of Inr healthy \<Rightarrow> healthy | Inl e \<Rightarrow> False))"

definition health_check_all :: "network \<Rightarrow> service \<Rightarrow> (string \<times> bool) list" where
  "health_check_all net svc = health_loop net (adapters svc) []"

subsection \<open>What sortedness and ties mean for the sort key\<close>

text \<open>
  \<open>key_le a b\<close>: the price of \<open>a\<close> is below that of \<open>b\<close>, or the prices are equal in
  value and the departure of \<open>a\<close> equals that of \<open>b\<close> or is smaller by Python's \<^verbatim>\<open><\<close>.
  \<open>key_eq a b\<close>: the two keys tie on both fields (for prices that are not NaN).
\<close>

definition key_le :: "decimal \<times> json \<Rightarrow> decimal \<times> json \<Rightarrow> bool" where
  "key_le a b =
     (rank_lt (dec_rank (fst a)) (dec_rank (fst b)) \<or>
      (dec_rank (fst a) = dec_rank (fst b) \<and>
       (py_eq (snd a) (snd b) \<or> py_lt (snd a) (snd b) = Inr True)))"

definition key_eq :: "decimal \<times> json \<Rightarrow> decimal \<times> json \<Rightarrow> bool" where
  "key_eq a b = (dec_rank (fst a) = dec_rank (fst b) \<and> py_eq (snd a) (snd b))"

definition comparable :: "decimal \<times> json \<Rightarrow> decimal \<times> json \<Rightarrow> bool" where
  "comparable a b = (case tuple_lt a b of Inr r \<Rightarrow> True | Inl e \<Rightarrow> False)"

subsection \<open>Notions the properties are stated with\<close>



text \<open>
  A search call fails as a whole when the transport raises, the status is not 200, the
  body does not parse as JSON, or the mapper raises on the parsed body.
\<close>

definition response_failure ::
  "(json \<Rightarrow> exn + SearchResponse list) \<Rightarrow> exn + http_response \<Rightarrow> bool" where
  "response_failure parse r =
     (case r of
        Inl e \<Rightarrow> True
      | Inr response \<Rightarrow>
          status response \<noteq> 200 \<or>
          (case json_result response of
             Inl e \<Rightarrow> True
           | Inr data \<Rightarrow> (case parse data of Inl e \<Rightarrow> True | Inr results \<Rightarrow> False)))"

fun search_failed :: "network \<Rightarrow> adapter \<Rightarrow> SearchRequest \<Rightarrow> bool" where
  "search_failed net (BaseFerryOperatorAdapter op) request = True"
| "search_failed net (LykoAggregatorAdapter op base api_key) request =
     response_failure (parse_search_response op) (net (lyko_search_request op base api_key request))"
| "search_failed net (CTNDirectAdapter op base api_key) request =
     response_failure parse_ctn_response (net (ctn_search_request base api_key request))"

text \<open>The results every adapter of the service hands back, concatenated in the order of
  the adapter dict.\<close>

definition gathered :: "network \<Rightarrow> service \<Rightarrow> SearchRequest \<Rightarrow> SearchResponse list" where
  "gathered net svc request =
     concat (map (\<lambda>entry. safe_search net (snd entry) request) (adapters svc))"

subsection \<open>Example operators, requests and networks\<close>

definition ex_request :: SearchRequest where
  "ex_request =
     \<lparr> departure_port = ''TUN'', arrival_port = ''MRS'', departure_date = ''2025-07-01'',
       return_date = None, passengers = 2, vehicles = 0,
       passenger_types = [(''adult'', 2)], vehicle_types = [] \<rparr>"

definition ex_gnv :: FerryOperator where
  "ex_gnv =
     \<lparr> code = ''GNV'', api_endpoint = None, api_key_encrypted = Some ''k1'',
       api_timeout_seconds = 5, is_active = True, integration_status = ''active'' \<rparr>"

definition ex_ctn :: FerryOperator where
  "ex_ctn =
     \<lparr> code = ''CTN'', api_endpoint = Some ''https://ctn.example/v2'',
       api_key_encrypted = Some ''k2'', api_timeout_seconds = 30, is_active = True,
       integration_status = ''active'' \<rparr>"

definition ex_gnv_adapter :: adapter where
  "ex_gnv_adapter = LykoAggregatorAdapter ex_gnv ''https://api.lyko.tech/v1'' (Some ''k1'')"

definition ex_ctn_adapter :: adapter where
  "ex_ctn_adapter = CTNDirectAdapter ex_ctn ''https://ctn.example/v2'' (Some ''k2'')"

text \<open>GNV registered before CTN.\<close>

definition ex_service :: service where
  "ex_service = \<lparr> adapters = [(''GNV'', ex_gnv_adapter), (''CTN'', ex_ctn_adapter)] \<rparr>"

definition ok_response :: "json \<Rightarrow> http_response" where
  "ok_response v = \<lparr> status = 200, json_result = Inr v, text_result = Inr '''' \<rparr>"

definition error_response :: "int \<Rightarrow> http_response" where
  "error_response s =
     \<lparr> status = s, json_result = Inl (Exn ''ContentTypeError'' ''unexpected mimetype''),
       text_result = Inr ''Service Unavailable'' \<rparr>"

definition ex_timeout :: exn where
  "ex_timeout = Exn ''TimeoutError'' ''''"

text \<open>A network is given by what the Lyko search, the CTN search and every other
  request answer.\<close>

definition ex_network ::
  "(exn + http_response) \<Rightarrow> (exn + http_response) \<Rightarrow> (exn + http_response) \<Rightarrow> network" where
  "ex_network lyko_search ctn_search other req =
     (if http_method req = ''POST'' \<and> url req = ''https://api.lyko.tech/v1/search'' then lyko_search
      else if http_method req = ''POST'' \<and> url req = ''https://ctn.example/v2/search'' then ctn_search
      else other)"

definition ex_lyko_body :: json where
  "ex_lyko_body = JObj [(''results'', JList
     [JObj [(''route_id'', JStr ''G1''), (''departure_time'', JStr ''2025-07-01T08:00''),
            (''price'', JStr ''80.00'')]])]"

definition ex_ctn_body :: json where
  "ex_ctn_body = JObj [(''sailings'', JList
     [JObj [(''route_id'', JStr ''C1''), (''departure'', JStr ''2025-07-01T08:00''),
            (''fare'', JInt 80)]])]"

definition ex_gnv_result :: SearchResponse where
  "ex_gnv_result =
     \<lparr> operator_code = JStr ''GNV'', route_id = JStr ''G1'',
       departure_time = JStr ''2025-07-01T08:00'', arrival_time = JNull,
       duration_minutes = JInt 0, available_seats = JInt 0, available_vehicles = JInt 0,
       base_price = Finite False 8000 (- 2), currency = JStr ''EUR'',
       booking_reference = JNull, amenities = JList [], vessel_name = JStr [] \<rparr>"

definition ex_ctn_result :: SearchResponse where
  "ex_ctn_result =
     \<lparr> operator_code = JStr ''CTN'', route_id = JStr ''C1'',
       departure_time = JStr ''2025-07-01T08:00'', arrival_time = JNull,
       duration_minutes = JNull, available_seats = JNull, available_vehicles = JNull,
       base_price = Finite False 80 0, currency = JStr ''TND'',
       booking_reference = JNull, amenities = JList [], vessel_name = JNull \<rparr>"







definition ex_lyko_body_empty :: json where
  "ex_lyko_body_empty = JObj [(''results'', JList [])]"





subsection \<open>Python's order on comparable values\<close>

lemma py_norm_VNum: "py_norm a = VNum m \<longleftrightarrow> py_num a = Some m"
  by (cases a) auto

lemma py_norm_VNum2: "VNum m = py_norm a \<longleftrightarrow> py_num a = Some m"
  by (cases a) auto

lemma py_norm_VStr: "py_norm a = VStr s \<longleftrightarrow> a = JStr s"
  by (cases a) auto

lemma py_norm_VStr2: "VStr s = py_norm a \<longleftrightarrow> a = JStr s"
  by (cases a) auto

lemma py_norm_VList: "py_norm a = VList vs \<longleftrightarrow> (\<exists>xs. a = JList xs \<and> map py_norm xs = vs)"
  by (cases a) auto

lemma py_norm_VList2: "VList vs = py_norm a \<longleftrightarrow> (\<exists>xs. a = JList xs \<and> map py_norm xs = vs)"
  by (cases a) auto

lemma py_num_norm: "py_num a = Some m \<Longrightarrow> py_norm a = VNum m"
  by (cases a) auto

lemmas py_norm_simps =
  py_norm_VNum py_norm_VNum2 py_norm_VStr py_norm_VStr2 py_norm_VList py_norm_VList2

lemma py_lt_num: "py_num a = Some m \<Longrightarrow> py_num b = Some n \<Longrightarrow> py_lt a b = Inr (m < n)"
  by (cases a; cases b) auto

lemma py_lt_Inr_cases:
  "py_lt a b = Inr r \<Longrightarrow>
     (\<exists>x y. a = JStr x \<and> b = JStr y \<and> r = (x < y)) \<or>
     (\<exists>xs ys. a = JList xs \<and> b = JList ys \<and> py_lt_list xs ys = Inr r) \<or>
     (\<exists>m n. py_num a = Some m \<and> py_num b = Some n \<and> r = (m < n))"
  by (cases a; cases b) (auto split: if_splits)

lemma py_lt_list_Nil2 [simp]: "py_lt_list xs [] = Inr False"
  by (cases xs) auto

text \<open>Where \<^verbatim>\<open><\<close> does not raise it is asymmetric, irreflexive up to \<^verbatim>\<open>==\<close>, connected,
  compatible with \<^verbatim>\<open>==\<close> and transitive.\<close>

lemma py_lt_asym:
  "py_lt a b = Inr True \<Longrightarrow> py_lt b a = Inr False"
  "py_lt_list xs ys = Inr True \<Longrightarrow> py_lt_list ys xs = Inr False"
  by (induction a b and xs ys rule: py_lt_py_lt_list.induct)
     (auto simp: py_eq_def split: if_splits option.splits)

lemma py_lt_irrefl:
  "py_lt a b = Inr True \<Longrightarrow> py_norm a \<noteq> py_norm b"
  "py_lt_list xs ys = Inr True \<Longrightarrow> map py_norm xs \<noteq> map py_norm ys"
  by (induction a b and xs ys rule: py_lt_py_lt_list.induct)
     (auto simp: py_eq_def py_norm_simps py_lt_num dest: py_num_norm
           split: if_splits option.splits)

lemma py_lt_connex:
  "py_lt a b = Inr False \<Longrightarrow> py_norm a \<noteq> py_norm b \<Longrightarrow> py_lt b a = Inr True"
  "py_lt_list xs ys = Inr False \<Longrightarrow> map py_norm xs \<noteq> map py_norm ys
     \<Longrightarrow> py_lt_list ys xs = Inr True"
  by (induction a b and xs ys rule: py_lt_py_lt_list.induct)
     (auto simp: py_eq_def py_norm_simps py_lt_num dest: py_num_norm
           split: if_splits option.splits)

lemma py_lt_cong1:
  "py_lt a b = Inr r \<Longrightarrow> py_norm a = py_norm a' \<Longrightarrow> py_lt a' b = Inr r"
  "py_lt_list xs ys = Inr r \<Longrightarrow> map py_norm xs = map py_norm xs' \<Longrightarrow> py_lt_list xs' ys = Inr r"
  by (induction a b and xs ys arbitrary: a' and xs' rule: py_lt_py_lt_list.induct)
     (auto simp: py_eq_def py_norm_simps py_lt_num dest: py_num_norm
           split: if_splits option.splits)

lemma py_lt_cong2:
  "py_lt a b = Inr r \<Longrightarrow> py_norm b = py_norm b' \<Longrightarrow> py_lt a b' = Inr r"
  "py_lt_list xs ys = Inr r \<Longrightarrow> map py_norm ys = map py_norm ys' \<Longrightarrow> py_lt_list xs ys' = Inr r"
  by (induction a b and xs ys arbitrary: b' and ys' rule: py_lt_py_lt_list.induct)
     (auto simp: py_eq_def py_norm_simps py_lt_num dest: py_num_norm
           split: if_splits option.splits)

lemma py_lt_trans:
  "py_lt a b = Inr True \<Longrightarrow> py_lt b c = Inr True \<Longrightarrow> py_lt a c = Inr True"
  "py_lt_list xs ys = Inr True \<Longrightarrow> py_lt_list ys zs = Inr True \<Longrightarrow> py_lt_list xs zs = Inr True"
proof (induction a b and xs ys arbitrary: c and zs rule: py_lt_py_lt_list.induct)
  case (1 a b)
  then show ?case by (auto dest!: py_lt_Inr_cases)
next
  case (2 xs ys)
  then show ?case by (auto dest!: py_lt_Inr_cases[of "JList ys"])
next
  case (6 x xs y ys)
  from "6.prems"(2) obtain z zs' where zs: "zs = z # zs'"
    by (cases zs) auto
  show ?case
  proof (cases "py_eq x y")
    case xy: True
    with "6.prems" have l1: "py_lt_list xs ys = Inr True" by simp
    show ?thesis
    proof (cases "py_eq y z")
      case True
      with "6.prems" zs have "py_lt_list ys zs' = Inr True" by simp
      with "6.IH"(1)[OF xy l1] have "py_lt_list xs zs' = Inr True" .
      moreover have "py_eq x z" using xy True by (simp add: py_eq_def)
      ultimately show ?thesis using zs by simp
    next
      case False
      with "6.prems" zs have "py_lt y z = Inr True" by simp
      then have "py_lt x z = Inr True"
        using xy py_lt_cong1(1)[of y z True x] by (simp add: py_eq_def)
      moreover have "\<not> py_eq x z" using xy False by (simp add: py_eq_def)
      ultimately show ?thesis using zs by simp
    qed
  next
    case xy: False
    with "6.prems" have l1: "py_lt x y = Inr True" by simp
    show ?thesis
    proof (cases "py_eq y z")
      case True
      then have "py_lt x z = Inr True"
        using l1 py_lt_cong2(1)[of x y True z] by (simp add: py_eq_def)
      moreover have "\<not> py_eq x z" using xy True by (simp add: py_eq_def)
      ultimately show ?thesis using zs by simp
    next
      case False
      with "6.prems" zs have "py_lt y z = Inr True" by simp
      with "6.IH"(2)[OF xy l1] have xz: "py_lt x z = Inr True" .
      then have "\<not> py_eq x z" using py_lt_irrefl(1) by (simp add: py_eq_def)
      then show ?thesis using zs xz by simp
    qed
  qed
qed (auto split: option.splits if_splits dest!: py_lt_Inr_cases simp: py_lt_num)

subsection \<open>The key order and the sort\<close>

lemma rank_lt_irrefl: "\<not> rank_lt a a"
  by (simp add: rank_lt_def)

lemma rank_lt_trans: "rank_lt a b \<Longrightarrow> rank_lt b c \<Longrightarrow> rank_lt a c"
  by (auto simp: rank_lt_def)

lemma rank_lt_total: "a \<noteq> b \<Longrightarrow> rank_lt a b \<or> rank_lt b a"
  by (cases a; cases b) (auto simp: rank_lt_def)

lemma rank_lt_asym: "rank_lt a b \<Longrightarrow> \<not> rank_lt b a"
  by (auto simp: rank_lt_def)

lemma comparable_iff: "comparable a b \<longleftrightarrow> (\<exists>r. tuple_lt a b = Inr r)"
  by (auto simp: comparable_def split: sum.splits)

lemma py_lt_total: "py_lt a b = Inr r \<Longrightarrow> \<not> py_eq a b \<Longrightarrow> py_lt b a = Inr (\<not> r)"
  using py_lt_asym(1)[of a b] py_lt_connex(1)[of a b] by (cases r) (auto simp: py_eq_def)

lemma comparable_sym: "comparable a b \<Longrightarrow> comparable b a"
  unfolding comparable_iff tuple_lt_def
  by (auto simp: py_eq_def split: if_splits dest: py_lt_total[unfolded py_eq_def])

lemma key_less_asym: "key_less a b \<Longrightarrow> \<not> key_less b a"
  unfolding key_less_def tuple_lt_def
  by (auto simp: py_eq_def split: if_splits dest: rank_lt_asym py_lt_asym(1))

lemma key_less_iff:
  "key_less a b \<longleftrightarrow>
     \<not> is_nan (fst a) \<and> \<not> is_nan (fst b) \<and>
     (rank_lt (dec_rank (fst a)) (dec_rank (fst b)) \<or>
      (dec_rank (fst a) = dec_rank (fst b) \<and> \<not> py_eq (snd a) (snd b)
         \<and> py_lt (snd a) (snd b) = Inr True))"
  unfolding key_less_def tuple_lt_def
  by (auto simp: rank_lt_irrefl)

text \<open>For two comparable keys, "not greater" is \<open>key_le\<close>.\<close>

lemma not_less_key_le: "comparable a b \<Longrightarrow> \<not> key_less b a \<longleftrightarrow> key_le a b"
proof -
  assume c: "comparable a b"
  then have nn: "\<not> is_nan (fst a)" "\<not> is_nan (fst b)"
    by (auto simp: comparable_iff tuple_lt_def split: if_splits)
  show ?thesis
  proof (cases "dec_rank (fst a) = dec_rank (fst b)")
    case False
    then show ?thesis
      using nn rank_lt_total[OF False] rank_lt_asym[of "dec_rank (fst a)" "dec_rank (fst b)"]
      by (auto simp: key_less_iff key_le_def)
  next
    case True
    show ?thesis
    proof (cases "py_eq (snd a) (snd b)")
      case eq: True
      then have "py_eq (snd b) (snd a)" by (simp add: py_eq_def)
      with eq True nn show ?thesis by (simp add: key_less_iff key_le_def rank_lt_irrefl)
    next
      case ne: False
      then have ne': "\<not> py_eq (snd b) (snd a)" by (simp add: py_eq_def)
      from c True ne nn obtain r where r: "py_lt (snd a) (snd b) = Inr r"
        by (auto simp: comparable_iff tuple_lt_def split: if_splits)
      from py_lt_total[OF r ne] have "py_lt (snd b) (snd a) = Inr (\<not> r)" .
      with r True ne ne' nn show ?thesis
        by (cases r) (simp_all add: key_less_iff key_le_def rank_lt_irrefl)
    qed
  qed
qed

lemma key_eq_not_less: "key_eq a b \<Longrightarrow> \<not> key_less a b"
  by (auto simp: key_eq_def key_less_iff rank_lt_irrefl)

lemma key_eq_sym: "key_eq a b \<Longrightarrow> key_eq b a"
  by (auto simp: key_eq_def py_eq_def)

lemma key_eq_trans: "key_eq a b \<Longrightarrow> key_eq b c \<Longrightarrow> key_eq a c"
  by (auto simp: key_eq_def py_eq_def)

text \<open>Among three pairwise comparable keys, "not greater" is transitive.\<close>

lemma key_le_trans:
  assumes "comparable a b" "comparable b c" "comparable a c"
    and ab: "\<not> key_less b a" and bc: "\<not> key_less c b"
  shows "\<not> key_less c a"
proof
  assume ca: "key_less c a"
  have nn: "\<not> is_nan (fst a)" "\<not> is_nan (fst b)" "\<not> is_nan (fst c)"
    using assms(1,2) by (auto simp: comparable_iff tuple_lt_def split: if_splits)
  let ?ra = "dec_rank (fst a)" and ?rb = "dec_rank (fst b)" and ?rc = "dec_rank (fst c)"
  from ab nn have ab': "\<not> rank_lt ?rb ?ra"
    and ab'': "?rb = ?ra \<Longrightarrow> py_eq (snd b) (snd a) \<or> py_lt (snd b) (snd a) \<noteq> Inr True"
    by (auto simp: key_less_iff)
  from bc nn have bc': "\<not> rank_lt ?rc ?rb"
    and bc'': "?rc = ?rb \<Longrightarrow> py_eq (snd c) (snd b) \<or> py_lt (snd c) (snd b) \<noteq> Inr True"
    by (auto simp: key_less_iff)
  from ca consider
      (rank) "rank_lt ?rc ?ra"
    | (dep) "?rc = ?ra" "\<not> py_eq (snd c) (snd a)" "py_lt (snd c) (snd a) = Inr True"
    by (auto simp: key_less_iff)
  then show False
  proof cases
    case rank
    show False
    proof (cases "?rb = ?ra")
      case True
      with rank bc' show False by simp
    next
      case False
      with ab' have "rank_lt ?ra ?rb" using rank_lt_total by blast
      with rank have "rank_lt ?rc ?rb" using rank_lt_trans by blast
      with bc' show False by simp
    qed
  next
    case dep
    have rb: "?rb = ?ra"
    proof (rule ccontr)
      assume "?rb \<noteq> ?ra"
      with ab' have "rank_lt ?ra ?rb" using rank_lt_total by blast
      with dep(1) bc' show False by simp
    qed
    with dep(1) have rcb: "?rc = ?rb" by simp
    from assms(1) nn rb have cab: "py_eq (snd a) (snd b) \<or> (\<exists>r. py_lt (snd a) (snd b) = Inr r)"
      by (auto simp: comparable_iff tuple_lt_def split: if_splits)
    from assms(2) nn rcb have cbc: "py_eq (snd b) (snd c) \<or> (\<exists>r. py_lt (snd b) (snd c) = Inr r)"
      by (auto simp: comparable_iff tuple_lt_def split: if_splits)
    have le_ab: "py_eq (snd a) (snd b) \<or> py_lt (snd a) (snd b) = Inr True"
    proof (cases "py_eq (snd a) (snd b)")
      case False
      with cab obtain r where r: "py_lt (snd a) (snd b) = Inr r" by blast
      show ?thesis
      proof (cases r)
        case True with r show ?thesis by simp
      next
        case False
        with r \<open>\<not> py_eq (snd a) (snd b)\<close> have "py_lt (snd b) (snd a) = Inr True"
          using py_lt_connex(1) by (simp add: py_eq_def)
        with ab''[OF rb] \<open>\<not> py_eq (snd a) (snd b)\<close> show ?thesis by (simp add: py_eq_def)
      qed
    qed simp
    have le_bc: "py_eq (snd b) (snd c) \<or> py_lt (snd b) (snd c) = Inr True"
    proof (cases "py_eq (snd b) (snd c)")
      case False
      with cbc obtain r where r: "py_lt (snd b) (snd c) = Inr r" by blast
      show ?thesis
      proof (cases r)
        case True with r show ?thesis by simp
      next
        case False
        with r \<open>\<not> py_eq (snd b) (snd c)\<close> have "py_lt (snd c) (snd b) = Inr True"
          using py_lt_connex(1) by (simp add: py_eq_def)
        with bc''[OF rcb] \<open>\<not> py_eq (snd b) (snd c)\<close> show ?thesis by (simp add: py_eq_def)
      qed
    qed simp
    from le_ab le_bc show False
    proof (elim disjE)
      assume "py_eq (snd a) (snd b)" "py_eq (snd b) (snd c)"
      with dep(2) show False by (simp add: py_eq_def)
    next
      assume e: "py_eq (snd a) (snd b)" and l: "py_lt (snd b) (snd c) = Inr True"
      from l e have "py_lt (snd a) (snd c) = Inr True"
        using py_lt_cong1(1)[of "snd b" "snd c" True "snd a"] by (simp add: py_eq_def)
      with dep(3) show False using py_lt_asym(1) by fastforce
    next
      assume l: "py_lt (snd a) (snd b) = Inr True" and e: "py_eq (snd b) (snd c)"
      from l e have "py_lt (snd a) (snd c) = Inr True"
        using py_lt_cong2(1)[of "snd a" "snd b" True "snd c"] by (simp add: py_eq_def)
      with dep(3) show False using py_lt_asym(1) by fastforce
    next
      assume "py_lt (snd a) (snd b) = Inr True" "py_lt (snd b) (snd c) = Inr True"
      then have "py_lt (snd a) (snd c) = Inr True" by (rule py_lt_trans(1))
      with dep(3) show False using py_lt_asym(1) by fastforce
    qed
  qed
qed

lemma compare_error_None:
  "compare_error k ks = None \<longleftrightarrow> (\<forall>k' \<in> set ks. comparable k' k)"
  by (induction ks) (auto simp: comparable_def split: sum.splits)

lemma sort_error_None:
  "sort_error ks = None \<longleftrightarrow> sorted_wrt (\<lambda>a b. comparable b a) ks"
  by (induction ks) (auto simp flip: compare_error_None split: option.splits)

lemma set_insort_by [simp]: "set (insort_by f x ys) = insert x (set ys)"
  by (induction ys) auto

lemma mset_insort_by [simp]: "mset (insort_by f x ys) = add_mset x (mset ys)"
  by (induction ys) auto

lemma mset_foldr_insort_by: "mset (foldr (insort_by f) xs []) = mset xs"
  by (induction xs) auto

lemma set_foldr_insort_by: "set (foldr (insort_by f) xs []) = set xs"
  by (induction xs) auto

lemma comparable_insort_by:
  "sorted_wrt (\<lambda>a b. comparable (f a) (f b)) ys \<Longrightarrow> \<forall>y \<in> set ys. comparable (f x) (f y)
     \<Longrightarrow> sorted_wrt (\<lambda>a b. comparable (f a) (f b)) (insort_by f x ys)"
  by (induction ys) (auto dest: comparable_sym)

lemma sorted_insort_by:
  assumes "sorted_wrt (\<lambda>a b. comparable (f a) (f b)) ys"
    and "\<forall>y \<in> set ys. comparable (f x) (f y)"
    and "sorted_wrt (\<lambda>a b. \<not> key_less (f b) (f a)) ys"
  shows "sorted_wrt (\<lambda>a b. \<not> key_less (f b) (f a)) (insort_by f x ys)"
  using assms
proof (induction ys)
  case Nil
  then show ?case by simp
next
  case (Cons y ys)
  show ?case
  proof (cases "key_less (f y) (f x)")
    case True
    then have "\<not> key_less (f x) (f y)" by (rule key_less_asym)
    with True Cons show ?thesis by auto
  next
    case False
    have "\<not> key_less (f z) (f x)" if z: "z \<in> set ys" for z
    proof (rule key_le_trans[of "f x" "f y" "f z"])
      show "comparable (f x) (f y)" "comparable (f x) (f z)" using Cons.prems(2) z by auto
      show "comparable (f y) (f z)" using Cons.prems(1) z by auto
      show "\<not> key_less (f y) (f x)" by (rule False)
      show "\<not> key_less (f z) (f y)" using Cons.prems(3) z by auto
    qed
    with False Cons.prems(3) show ?thesis by auto
  qed
qed

lemma sorted_foldr_insort_by:
  "sorted_wrt (\<lambda>a b. comparable (f a) (f b)) xs \<Longrightarrow>
     sorted_wrt (\<lambda>a b. comparable (f a) (f b)) (foldr (insort_by f) xs []) \<and>
     sorted_wrt (\<lambda>a b. \<not> key_less (f b) (f a)) (foldr (insort_by f) xs [])"
proof (induction xs)
  case Nil
  then show ?case by simp
next
  case (Cons x xs)
  then have ih: "sorted_wrt (\<lambda>a b. comparable (f a) (f b)) (foldr (insort_by f) xs [])"
      "sorted_wrt (\<lambda>a b. \<not> key_less (f b) (f a)) (foldr (insort_by f) xs [])"
    and cx: "\<forall>y \<in> set (foldr (insort_by f) xs []). comparable (f x) (f y)"
    by (auto simp: set_foldr_insort_by)
  show ?case
    using comparable_insort_by[OF ih(1) cx] sorted_insort_by[OF ih(1) cx ih(2)] by simp
qed

lemma filter_insort_by:
  "filter (\<lambda>y. key_eq (f y) k) (insort_by f x ys) = filter (\<lambda>y. key_eq (f y) k) (x # ys)"
proof (induction ys)
  case Nil
  then show ?case by simp
next
  case (Cons y ys)
  show ?case
  proof (cases "key_less (f y) (f x)")
    case True
    then have "\<not> (key_eq (f x) k \<and> key_eq (f y) k)"
      using key_eq_not_less key_eq_trans key_eq_sym by blast
    with True Cons show ?thesis by auto
  next
    case False
    then show ?thesis by simp
  qed
qed

lemma filter_foldr_insort_by:
  "filter (\<lambda>y. key_eq (f y) k) (foldr (insort_by f) xs []) = filter (\<lambda>y. key_eq (f y) k) xs"
  by (induction xs) (auto simp: filter_insort_by)

text \<open>What a sort that returns has done: the result is a permutation of the input,
  sorted by the key, and elements whose keys tie keep their order.\<close>

lemma list_sort_Inr:
  assumes "list_sort f xs = Inr ys"
  shows "mset ys = mset xs"
    and "sorted_wrt (\<lambda>a b. key_le (f a) (f b)) ys"
    and "filter (\<lambda>y. key_eq (f y) k) ys = filter (\<lambda>y. key_eq (f y) k) xs"
proof -
  from assms have se: "sort_error (map f xs) = None" and ys: "ys = foldr (insort_by f) xs []"
    by (auto simp: list_sort_def split: option.splits)
  from se have c: "sorted_wrt (\<lambda>a b. comparable (f a) (f b)) xs"
    by (auto simp: sort_error_None sorted_wrt_map intro: sorted_wrt_mono_rel[rotated] dest: comparable_sym)
  from ys show "mset ys = mset xs" by (simp add: mset_foldr_insort_by)
  from ys show "filter (\<lambda>y. key_eq (f y) k) ys = filter (\<lambda>y. key_eq (f y) k) xs"
    by (simp add: filter_foldr_insort_by)
  from sorted_foldr_insort_by[OF c] ys
  have "sorted_wrt (\<lambda>a b. comparable (f a) (f b)) ys" "sorted_wrt (\<lambda>a b. \<not> key_less (f b) (f a)) ys"
    by auto
  then have "sorted_wrt (\<lambda>a b. comparable (f a) (f b) \<and> \<not> key_less (f b) (f a)) ys"
    by (simp add: sorted_wrt_iff_nth_less)
  then show "sorted_wrt (\<lambda>a b. key_le (f a) (f b)) ys"
    by (rule sorted_wrt_mono_rel[rotated]) (auto simp: not_less_key_le)
qed

lemma list_sort_Nil [simp]: "list_sort f [] = Inr []"
  by (simp add: list_sort_def)




subsection \<open>Basic facts about the mappers and the adapters\<close>

lemma ebind_simps [simp]:
  "ebind (Inl e) f = Inl e"
  "ebind (Inr x) f = f x"
  by (simp_all add: ebind_def)

lemma ebind_Inr_iff: "ebind m f = Inr y \<longleftrightarrow> (\<exists>x. m = Inr x \<and> f x = Inr y)"
  by (cases m) auto

lemma py_get_JObj [simp]:
  "py_get (JObj kvs) key dflt = Inr (case map_of kvs key of Some x \<Rightarrow> x | None \<Rightarrow> dflt)"
  by (simp add: py_get_def split: option.splits)

lemma py_get_not_obj: "(\<forall>kvs. v \<noteq> JObj kvs) \<Longrightarrow> py_get v key dflt = Inl (AttributeError_get v)"
  by (cases v) (auto simp: py_get_def)

lemma Decimal_of_str_zero [simp]: "Decimal_of_str (JInt 0) = Inr (Finite False 0 0)"
  by simp







text \<open>A failed call leaves the adapter with no results; the concrete adapters never raise.\<close>

lemma lyko_search_routes_failed:
  "response_failure (parse_search_response op) (net (lyko_search_request op base api_key request))
     \<Longrightarrow> lyko_search_routes net op base api_key request = []"
  by (auto simp: response_failure_def lyko_search_routes_def ebind_Inr_iff
           split: sum.splits if_splits)

lemma ctn_search_routes_failed:
  "response_failure parse_ctn_response (net (ctn_search_request base api_key request))
     \<Longrightarrow> ctn_search_routes net base api_key request = []"
  by (auto simp: response_failure_def ctn_search_routes_def split: sum.splits if_splits)

lemma safe_search_failed: "search_failed net a request \<Longrightarrow> safe_search net a request = []"
  by (cases a)
     (simp_all add: safe_search_def lyko_search_routes_failed ctn_search_routes_failed)

subsection \<open>Response mapping (C4, C9)\<close>





text \<open>
  C9. An entry that omits fields is kept by both mappers, a missing price becomes the
  decimal 0 and a missing currency \<^verbatim>\<open>EUR\<close> (Lyko) or \<^verbatim>\<open>TND\<close> (CTN). The Lyko mapper puts 0
  for a missing duration, seat count and vehicle count; the CTN mapper, given a sailing
  without them, leaves \<^verbatim>\<open>None\<close> in \<^verbatim>\<open>duration_minutes\<close>, \<^verbatim>\<open>available_seats\<close> and
  \<^verbatim>\<open>available_vehicles\<close> (and in \<^verbatim>\<open>vessel_name\<close>), fields the dataclass declares
  \<^verbatim>\<open>int\<close> (and \<^verbatim>\<open>str\<close>).
\<close>

theorem C9_ctn_leaves_None_for_missing_fields:
  "parse_ctn_response (JObj [(''sailings'', JList [JObj [(''route_id'', JStr ''C1'')]])]) =
     Inr [\<lparr> operator_code = JStr ''CTN'', route_id = JStr ''C1'', departure_time = JNull,
            arrival_time = JNull, duration_minutes = JNull, available_seats = JNull,
            available_vehicles = JNull, base_price = Finite False 0 0,
            currency = JStr ''TND'', booking_reference = JNull, amenities = JList [],
            vessel_name = JNull \<rparr>] \<and>
   parse_search_response ex_gnv (JObj [(''results'', JList [JObj [(''route_id'', JStr ''G1'')]])]) =
     Inr [\<lparr> operator_code = JStr ''GNV'', route_id = JStr ''G1'', departure_time = JNull,
            arrival_time = JNull, duration_minutes = JInt 0, available_seats = JInt 0,
            available_vehicles = JInt 0, base_price = Finite False 0 0,
            currency = JStr ''EUR'', booking_reference = JNull, amenities = JList [],
            vessel_name = JStr [] \<rparr>]"
  by (simp add: parse_ctn_response_def parse_search_response_def py_iter_def
                ctn_result_def lyko_result_def ex_gnv_def)

subsection \<open>Failure isolation in the adapters and the service (C3, C5, C10)\<close>

lemma parse_search_response_Inl:
  "(\<exists>e. parse_search_response op data = Inl e) \<longleftrightarrow>
     (\<forall>kvs. data \<noteq> JObj kvs) \<or>
     (\<exists>kvs v e. data = JObj kvs \<and> map_of kvs ''results'' = Some v \<and> py_iter v = Inl e)"
  by (cases data)
     (auto simp: parse_search_response_def py_get_def py_iter_def ebind_def
           split: option.splits sum.splits json.splits)

lemma parse_ctn_response_Inl:
  "(\<exists>e. parse_ctn_response data = Inl e) \<longleftrightarrow>
     (\<forall>kvs. data \<noteq> JObj kvs) \<or>
     (\<exists>kvs v e. data = JObj kvs \<and> map_of kvs ''sailings'' = Some v \<and> py_iter v = Inl e)"
  by (cases data)
     (auto simp: parse_ctn_response_def py_get_def py_iter_def ebind_def
           split: option.splits sum.splits json.splits)

text \<open>
  C3. When the transport raises, the status is not 200, the body does not parse, or the
  mapper raises on the body as a whole (the body is not an object, or its result list
  is not iterable), the search of a Lyko or CTN adapter returns the empty list; and
  whatever the network does, the search returns a list and raises nothing. A mapper
  that raises hands nothing on, so no part of such a response is merged.
\<close>

theorem C3_failed_search_returns_empty:
  "(response_failure (parse_search_response op) (net (lyko_search_request op base api_key request))
      \<longrightarrow> search_routes net (LykoAggregatorAdapter op base api_key) request = Inr []) \<and>
   (response_failure parse_ctn_response (net (ctn_search_request base api_key request))
      \<longrightarrow> search_routes net (CTNDirectAdapter op base api_key) request = Inr []) \<and>
   (\<exists>rs. search_routes net (LykoAggregatorAdapter op base api_key) request = Inr rs) \<and>
   (\<exists>rs. search_routes net (CTNDirectAdapter op base api_key) request = Inr rs) \<and>
   ((\<exists>e. parse_search_response op data = Inl e) \<longleftrightarrow>
      (\<forall>kvs. data \<noteq> JObj kvs) \<or>
      (\<exists>kvs v e. data = JObj kvs \<and> map_of kvs ''results'' = Some v \<and> py_iter v = Inl e)) \<and>
   ((\<exists>e. parse_ctn_response data = Inl e) \<longleftrightarrow>
      (\<forall>kvs. data \<noteq> JObj kvs) \<or>
      (\<exists>kvs v e. data = JObj kvs \<and> map_of kvs ''sailings'' = Some v \<and> py_iter v = Inl e))"
  using parse_search_response_Inl[of op data] parse_ctn_response_Inl[of data]
  by (simp add: lyko_search_routes_failed ctn_search_routes_failed)

lemma ex_lyko_url [simp]:
  "url (lyko_search_request op ''https://api.lyko.tech/v1'' k request)
     = ''https://api.lyko.tech/v1/search''"
  "http_method (lyko_search_request op base k request) = ''POST''"
  by (simp_all add: lyko_search_request_def)

lemma ex_ctn_url [simp]:
  "url (ctn_search_request ''https://ctn.example/v2'' k request)
     = ''https://ctn.example/v2/search''"
  "http_method (ctn_search_request base k request) = ''POST''"
  by (simp_all add: ctn_search_request_def)

text \<open>The Lyko call times out, CTN answers 503: both searches return the empty list.
  A body that is a list, not an object, makes the mapper raise as a whole.\<close>

theorem C3_witness:
  "response_failure (parse_search_response ex_gnv)
     (ex_network (Inl ex_timeout) (Inr (error_response 503)) (Inl ex_timeout)
        (lyko_search_request ex_gnv ''https://api.lyko.tech/v1'' (Some ''k1'') ex_request)) \<and>
   response_failure parse_ctn_response
     (ex_network (Inl ex_timeout) (Inr (error_response 503)) (Inl ex_timeout)
        (ctn_search_request ''https://ctn.example/v2'' (Some ''k2'') ex_request)) \<and>
   search_routes (ex_network (Inl ex_timeout) (Inr (error_response 503)) (Inl ex_timeout))
     ex_gnv_adapter ex_request = Inr [] \<and>
   search_routes (ex_network (Inl ex_timeout) (Inr (error_response 503)) (Inl ex_timeout))
     ex_ctn_adapter ex_request = Inr [] \<and>
   (\<exists>e. parse_search_response ex_gnv (JList []) = Inl e)"
  using C3_failed_search_returns_empty
          [where op = ex_gnv
             and net = "ex_network (Inl ex_timeout) (Inr (error_response 503)) (Inl ex_timeout)"
             and base = "''https://api.lyko.tech/v1''" and api_key = "Some ''k1''"
             and request = ex_request and data = "JList []"]
        C3_failed_search_returns_empty
          [where op = ex_ctn
             and net = "ex_network (Inl ex_timeout) (Inr (error_response 503)) (Inl ex_timeout)"
             and base = "''https://ctn.example/v2''" and api_key = "Some ''k2''"
             and request = ex_request and data = "JList []"]
  by (simp add: response_failure_def ex_network_def error_response_def
                ex_gnv_adapter_def ex_ctn_adapter_def)

lemma search_all_operators_gathered:
  "search_all_operators net svc request =
     (if adapters svc = [] then Inr [] else list_sort sort_key (gathered net svc request))"
  by (simp add: search_all_operators_def search_tasks_def gathered_def Let_def comp_def)

text \<open>
  C5. With no adapter registered the search returns the empty list at once, and when
  the search of every registered adapter fails (it raises, or its call fails as a
  whole) the search returns the empty list as well; in neither case does it raise.
\<close>

theorem C5_no_adapter_or_all_failed:
  "(adapters svc = [] \<longrightarrow> search_all_operators net svc request = Inr []) \<and>
   ((\<forall>entry \<in> set (adapters svc). search_failed net (snd entry) request)
      \<longrightarrow> search_all_operators net svc request = Inr [])"
proof (intro conjI impI)
  assume "adapters svc = []"
  then show "search_all_operators net svc request = Inr []"
    by (simp add: search_all_operators_gathered)
next
  assume "\<forall>entry \<in> set (adapters svc). search_failed net (snd entry) request"
  then have "gathered net svc request = []"
    by (auto simp: gathered_def safe_search_failed)
  then show "search_all_operators net svc request = Inr []"
    by (simp add: search_all_operators_gathered)
qed

text \<open>A service with no adapter; and the two example adapters with the whole network
  down.\<close>

theorem C5_witness:
  "adapters \<lparr> adapters = [] \<rparr> = [] \<and>
   search_all_operators (\<lambda>req. Inl ex_timeout) \<lparr> adapters = [] \<rparr> ex_request = Inr [] \<and>
   adapters ex_service = [(''GNV'', ex_gnv_adapter), (''CTN'', ex_ctn_adapter)] \<and>
   search_failed (\<lambda>req. Inl ex_timeout) ex_gnv_adapter ex_request \<and>
   search_failed (\<lambda>req. Inl ex_timeout) ex_ctn_adapter ex_request \<and>
   search_all_operators (\<lambda>req. Inl ex_timeout) ex_service ex_request = Inr []"
  using C5_no_adapter_or_all_failed[of "\<lparr> adapters = [] \<rparr>" "\<lambda>req. Inl ex_timeout" ex_request]
        C5_no_adapter_or_all_failed[of ex_service "\<lambda>req. Inl ex_timeout" ex_request]
  by (simp add: ex_service_def ex_gnv_adapter_def ex_ctn_adapter_def response_failure_def)

text \<open>
  C10. \<^verbatim>\<open>create_booking\<close> of the service: for a code with no adapter in the map it
  returns \<^verbatim>\<open>{"error": "Operator <code> not available"}\<close>; when the adapter's call raises
  it returns \<^verbatim>\<open>{"error": str(e)}\<close>; in every case it returns a value, raises nothing and
  leaves the adapter map as it was.
\<close>

theorem C10_create_booking_returns_errors:
  "(map_of (adapters svc) c = None \<longrightarrow>
      create_booking net svc c booking_data =
        (Inr (JObj [(''error'', JStr (''Operator '' @ c @ '' not available''))]), svc)) \<and>
   (\<forall>a e. map_of (adapters svc) c = Some a \<and> adapter_create_booking net a booking_data = Inl e \<longrightarrow>
      create_booking net svc c booking_data = (Inr (JObj [(''error'', JStr (exn_str e))]), svc)) \<and>
   (\<exists>v. create_booking net svc c booking_data = (Inr v, svc))"
  by (auto simp: create_booking_def split: option.splits sum.splits)

text \<open>No adapter for \<^verbatim>\<open>CORS\<close>; the CTN adapter inherits the base \<^verbatim>\<open>create_booking\<close>, which
  raises \<^verbatim>\<open>NotImplementedError\<close>, whose \<^verbatim>\<open>str\<close> is empty.\<close>

theorem C10_witness:
  "map_of (adapters ex_service) ''CORS'' = None \<and>
   create_booking (\<lambda>req. Inl ex_timeout) ex_service ''CORS'' (JObj []) =
     (Inr (JObj [(''error'', JStr ''Operator CORS not available'')]), ex_service) \<and>
   map_of (adapters ex_service) ''CTN'' = Some ex_ctn_adapter \<and>
   adapter_create_booking (\<lambda>req. Inl ex_timeout) ex_ctn_adapter (JObj []) = Inl NotImplementedError \<and>
   create_booking (\<lambda>req. Inl ex_timeout) ex_service ''CTN'' (JObj []) =
     (Inr (JObj [(''error'', JStr [])]), ex_service)"
  using C10_create_booking_returns_errors[of ex_service "''CORS''" "\<lambda>req. Inl ex_timeout" "JObj []"]
        C10_create_booking_returns_errors[of ex_service "''CTN''" "\<lambda>req. Inl ex_timeout" "JObj []"]
  by (simp add: ex_service_def ex_ctn_adapter_def NotImplementedError_def)

subsection \<open>Merging and sorting (C1, C2)\<close>

lemma dec_rank_80 [simp]:
  "dec_rank (Finite False 8000 (- 2)) = (0, 80)"
  "dec_rank (Finite False 80 0) = (0, 80)"
  "dec_rank (Finite False 795 (- 1)) = (0, 159 / 2)"
  by (simp_all add: dec_value_def)

lemma ex_search_lyko:
  "safe_search (ex_network (Inr (ok_response ex_lyko_body)) c other) ex_gnv_adapter ex_request
     = [ex_gnv_result]"
  by (simp add: safe_search_def ex_gnv_adapter_def lyko_search_routes_def ex_network_def
        ok_response_def ex_lyko_body_def parse_search_response_def py_iter_def lyko_result_def
        ex_gnv_def ex_gnv_result_def Decimal_def parse_number_def strip_def is_space_def
        is_digit_def lower_def digits_val_def Let_def)


lemma ex_search_lyko_empty:
  "safe_search (ex_network (Inr (ok_response ex_lyko_body_empty)) c other) ex_gnv_adapter ex_request
     = []"
  by (simp add: safe_search_def ex_gnv_adapter_def lyko_search_routes_def ex_network_def
        ok_response_def ex_lyko_body_empty_def parse_search_response_def py_iter_def)

lemma ex_search_lyko_down:
  "safe_search (ex_network (Inl e) c other) ex_gnv_adapter ex_request = []"
  by (simp add: safe_search_def ex_gnv_adapter_def lyko_search_routes_def ex_network_def)

lemma ex_search_ctn:
  "safe_search (ex_network l (Inr (ok_response ex_ctn_body)) other) ex_ctn_adapter ex_request
     = [ex_ctn_result]"
  by (simp add: safe_search_def ex_ctn_adapter_def ctn_search_routes_def ex_network_def
        ok_response_def ex_ctn_body_def parse_ctn_response_def py_iter_def ctn_result_def
        ex_ctn_result_def lyko_search_request_def ctn_search_request_def)


lemma ex_gathered:
  "gathered net ex_service ex_request =
     safe_search net ex_gnv_adapter ex_request @ safe_search net ex_ctn_adapter ex_request"
  by (simp add: gathered_def ex_service_def)

lemma ex_service_adapters [simp]: "adapters ex_service \<noteq> []"
  by (simp add: ex_service_def)





text \<open>
  C2, as the specification states it, fails on the code: the search returns a plain
  list of results and no outcome map. The value returned when the GNV call times out is
  the value returned when GNV answers with an empty result list, so nothing in it marks
  GNV as failed.
\<close>

theorem C2_counterexample:
  "search_failed
      (ex_network (Inl ex_timeout) (Inr (ok_response ex_ctn_body)) (Inl ex_timeout))
      ex_gnv_adapter ex_request \<and>
   \<not> search_failed
      (ex_network (Inr (ok_response ex_lyko_body_empty)) (Inr (ok_response ex_ctn_body)) (Inl ex_timeout))
      ex_gnv_adapter ex_request \<and>
   search_all_operators
      (ex_network (Inl ex_timeout) (Inr (ok_response ex_ctn_body)) (Inl ex_timeout))
      ex_service ex_request = Inr [ex_ctn_result] \<and>
   search_all_operators
      (ex_network (Inr (ok_response ex_lyko_body_empty)) (Inr (ok_response ex_ctn_body)) (Inl ex_timeout))
      ex_service ex_request = Inr [ex_ctn_result]"
proof -
  have "search_failed
      (ex_network (Inl ex_timeout) (Inr (ok_response ex_ctn_body)) (Inl ex_timeout))
      ex_gnv_adapter ex_request"
    by (simp add: ex_gnv_adapter_def response_failure_def ex_network_def)
  moreover have "\<not> search_failed
      (ex_network (Inr (ok_response ex_lyko_body_empty)) (Inr (ok_response ex_ctn_body)) (Inl ex_timeout))
      ex_gnv_adapter ex_request"
    by (simp add: ex_gnv_adapter_def response_failure_def ex_network_def ok_response_def
          ex_lyko_body_empty_def parse_search_response_def py_iter_def)
  moreover have "search_all_operators
      (ex_network (Inl ex_timeout) (Inr (ok_response ex_ctn_body)) (Inl ex_timeout))
      ex_service ex_request = Inr [ex_ctn_result]"
    by (simp add: search_all_operators_gathered ex_gathered ex_search_lyko_down ex_search_ctn
          list_sort_def)
  moreover have "search_all_operators
      (ex_network (Inr (ok_response ex_lyko_body_empty)) (Inr (ok_response ex_ctn_body)) (Inl ex_timeout))
      ex_service ex_request = Inr [ex_ctn_result]"
    by (simp add: search_all_operators_gathered ex_gathered ex_search_lyko_empty ex_search_ctn
          list_sort_def)
  ultimately show ?thesis by blast
qed

lemma gathered_append:
  "gathered net (svc\<lparr>adapters := xs @ ys\<rparr>) request =
     gathered net (svc\<lparr>adapters := xs\<rparr>) request @ gathered net (svc\<lparr>adapters := ys\<rparr>) request"
  by (simp add: gathered_def)

text \<open>
  C2, amended. When the search of one adapter fails (it raises, times out or its call
  fails as a whole), that adapter contributes no result and the service returns exactly
  what it returns without that adapter: the failure reaches neither the other adapters
  nor the caller, and a returned list holds the results of all other adapters. The
  failure is logged only; the returned value has no outcome map.
\<close>

theorem C2_failed_adapter_is_as_if_absent:
  assumes "adapters svc = pre @ (c, a) # post"
    and "search_failed net a request"
  shows "safe_search net a request = [] \<and>
         search_all_operators net svc request
           = search_all_operators net (svc\<lparr>adapters := pre @ post\<rparr>) request \<and>
         (\<forall>rs. search_all_operators net svc request = Inr rs \<longrightarrow>
               mset rs = mset (gathered net (svc\<lparr>adapters := pre @ post\<rparr>) request))"
proof -
  have e: "safe_search net a request = []"
    using assms(2) by (rule safe_search_failed)
  have g: "gathered net svc request = gathered net (svc\<lparr>adapters := pre @ post\<rparr>) request"
    using assms(1) e by (simp add: gathered_def)
  have s: "search_all_operators net svc request
             = search_all_operators net (svc\<lparr>adapters := pre @ post\<rparr>) request"
  proof (cases "pre @ post = []")
    case True
    then have "gathered net (svc\<lparr>adapters := pre @ post\<rparr>) request = []"
      by (simp add: gathered_def)
    with g True assms(1) show ?thesis by (simp add: search_all_operators_gathered gathered_def)
  next
    case False
    with g assms(1) show ?thesis by (auto simp: search_all_operators_gathered)
  qed
  have "mset rs = mset (gathered net (svc\<lparr>adapters := pre @ post\<rparr>) request)"
    if r: "search_all_operators net svc request = Inr rs" for rs
  proof (cases "adapters svc = []")
    case True
    with assms(1) show ?thesis by simp
  next
    case False
    with r have "list_sort sort_key (gathered net svc request) = Inr rs"
      by (simp add: search_all_operators_gathered)
    from list_sort_Inr(1)[OF this] g show ?thesis by simp
  qed
  with e s show ?thesis by blast
qed

text \<open>The GNV call times out: the search returns what the service with the CTN
  adapter alone returns, the CTN result.\<close>

theorem C2_witness:
  "adapters ex_service = [] @ (''GNV'', ex_gnv_adapter) # [(''CTN'', ex_ctn_adapter)] \<and>
   search_failed
      (ex_network (Inl ex_timeout) (Inr (ok_response ex_ctn_body)) (Inl ex_timeout))
      ex_gnv_adapter ex_request \<and>
   search_all_operators
      (ex_network (Inl ex_timeout) (Inr (ok_response ex_ctn_body)) (Inl ex_timeout))
      ex_service ex_request
     = search_all_operators
         (ex_network (Inl ex_timeout) (Inr (ok_response ex_ctn_body)) (Inl ex_timeout))
         (ex_service\<lparr>adapters := [] @ [(''CTN'', ex_ctn_adapter)]\<rparr>) ex_request \<and>
   search_all_operators
      (ex_network (Inl ex_timeout) (Inr (ok_response ex_ctn_body)) (Inl ex_timeout))
      ex_service ex_request = Inr [ex_ctn_result]"
proof -
  have a: "adapters ex_service = [] @ (''GNV'', ex_gnv_adapter) # [(''CTN'', ex_ctn_adapter)]"
    by (simp add: ex_service_def)
  have f: "search_failed
      (ex_network (Inl ex_timeout) (Inr (ok_response ex_ctn_body)) (Inl ex_timeout))
      ex_gnv_adapter ex_request"
    by (simp add: ex_gnv_adapter_def response_failure_def ex_network_def)
  have r: "search_all_operators
      (ex_network (Inl ex_timeout) (Inr (ok_response ex_ctn_body)) (Inl ex_timeout))
      ex_service ex_request = Inr [ex_ctn_result]"
    by (simp add: search_all_operators_gathered ex_gathered ex_search_lyko_down ex_search_ctn
          list_sort_def)
  from C2_failed_adapter_is_as_if_absent[OF a f] a f r show ?thesis by simp
qed

subsection \<open>Health, timeouts and initialization (C6, C7, C8)\<close>

lemma ex_health:
  "health_check_all (ex_network l c (Inr (error_response 503))) ex_service
     = [(''GNV'', False), (''CTN'', False)]"
  by (simp add: health_check_all_def ex_service_def ex_gnv_adapter_def ex_ctn_adapter_def
        lyko_health_check_def ctn_health_check_def lyko_health_request_def
        ctn_health_request_def ex_network_def error_response_def)

lemma ex_unhealthy_search:
  "search_all_operators
      (ex_network (Inr (ok_response ex_lyko_body)) (Inr (ok_response ex_ctn_body))
         (Inr (error_response 503)))
      ex_service ex_request = Inr [ex_gnv_result, ex_ctn_result]"
  by (simp add: search_all_operators_gathered ex_gathered ex_search_lyko ex_search_ctn
        list_sort_def sort_key_def tuple_lt_def key_less_def py_eq_def rank_lt_def
        ex_gnv_result_def ex_ctn_result_def dec_value_def)

text \<open>
  C6, as the specification states it, fails on the code: the search looks at no health
  information. Here the health checks of both operators answer 503, so
  \<^verbatim>\<open>health_check_all\<close> reports both as unhealthy, and the search still calls both and
  returns their results.
\<close>

theorem C6_counterexample:
  "health_check_all
      (ex_network (Inr (ok_response ex_lyko_body)) (Inr (ok_response ex_ctn_body))
         (Inr (error_response 503)))
      ex_service = [(''GNV'', False), (''CTN'', False)] \<and>
   search_all_operators
      (ex_network (Inr (ok_response ex_lyko_body)) (Inr (ok_response ex_ctn_body))
         (Inr (error_response 503)))
      ex_service ex_request = Inr [ex_gnv_result, ex_ctn_result] \<and>
   safe_search
      (ex_network (Inr (ok_response ex_lyko_body)) (Inr (ok_response ex_ctn_body))
         (Inr (error_response 503)))
      ex_gnv_adapter ex_request = [ex_gnv_result]"
  by (simp add: ex_health ex_unhealthy_search ex_search_lyko)

text \<open>
  C6, amended. The search creates one task for every adapter of the map, whatever its
  health, and whenever the search returns, every result of every adapter is in the
  returned list. No adapter is skipped and nothing is marked skipped-unhealthy;
  \<^verbatim>\<open>health_check_all\<close> is a separate operation whose outcome the search never reads.
\<close>

theorem C6_every_adapter_is_searched:
  "map fst (search_tasks net svc request) = map (\<lambda>entry. ''search_'' @ fst entry) (adapters svc) \<and>
   (\<forall>rs entry. search_all_operators net svc request = Inr rs \<and> entry \<in> set (adapters svc)
       \<longrightarrow> set (safe_search net (snd entry) request) \<subseteq> set rs)"
proof (intro conjI allI impI)
  show "map fst (search_tasks net svc request)
          = map (\<lambda>entry. ''search_'' @ fst entry) (adapters svc)"
    by (simp add: search_tasks_def comp_def)
next
  fix rs entry
  assume a: "search_all_operators net svc request = Inr rs \<and> entry \<in> set (adapters svc)"
  then have ne: "adapters svc \<noteq> []" by auto
  with a have "list_sort sort_key (gathered net svc request) = Inr rs"
    by (simp add: search_all_operators_gathered)
  from list_sort_Inr(1)[OF this] have "set rs = set (gathered net svc request)"
    by (rule mset_eq_setD)
  with a show "set (safe_search net (snd entry) request) \<subseteq> set rs"
    by (auto simp: gathered_def)
qed

text \<open>Both operators unhealthy by their health checks, both searched, both results
  returned.\<close>

theorem C6_witness:
  "search_all_operators
      (ex_network (Inr (ok_response ex_lyko_body)) (Inr (ok_response ex_ctn_body))
         (Inr (error_response 503)))
      ex_service ex_request = Inr [ex_gnv_result, ex_ctn_result] \<and>
   (''GNV'', ex_gnv_adapter) \<in> set (adapters ex_service) \<and>
   map_of (health_check_all
      (ex_network (Inr (ok_response ex_lyko_body)) (Inr (ok_response ex_ctn_body))
         (Inr (error_response 503))) ex_service) ''GNV'' = Some False \<and>
   set (safe_search
      (ex_network (Inr (ok_response ex_lyko_body)) (Inr (ok_response ex_ctn_body))
         (Inr (error_response 503)))
      ex_gnv_adapter ex_request) \<subseteq> set [ex_gnv_result, ex_ctn_result] \<and>
   map fst (search_tasks
      (ex_network (Inr (ok_response ex_lyko_body)) (Inr (ok_response ex_ctn_body))
         (Inr (error_response 503))) ex_service ex_request) = [''search_GNV'', ''search_CTN'']"
proof -
  let ?net = "ex_network (Inr (ok_response ex_lyko_body)) (Inr (ok_response ex_ctn_body))
         (Inr (error_response 503))"
  have m: "(''GNV'', ex_gnv_adapter) \<in> set (adapters ex_service)"
    by (simp add: ex_service_def)
  from C6_every_adapter_is_searched[of ?net ex_service ex_request]
  have t: "map fst (search_tasks ?net ex_service ex_request)
             = map (\<lambda>entry. ''search_'' @ fst entry) (adapters ex_service)"
    and s: "\<And>rs entry. search_all_operators ?net ex_service ex_request = Inr rs
             \<Longrightarrow> entry \<in> set (adapters ex_service)
             \<Longrightarrow> set (safe_search ?net (snd entry) ex_request) \<subseteq> set rs"
    by blast+
  from s[OF ex_unhealthy_search m]
  have "set (safe_search ?net ex_gnv_adapter ex_request) \<subseteq> set [ex_gnv_result, ex_ctn_result]"
    by simp
  moreover from t have "map fst (search_tasks ?net ex_service ex_request)
      = [''search_GNV'', ''search_CTN'']"
    by (simp add: ex_service_def)
  ultimately show ?thesis
    using ex_unhealthy_search m by (simp add: ex_health)
qed












end
